theory Spec2Isabelle
  imports Main "HOL-Library.Sublist"
begin

section \<open>Strings\<close>

text \<open>
  A Python \<open>str\<close> is modelled as a \<open>string\<close> holding its UTF-8 encoding. Substring,
  prefix and suffix tests, splitting at \<open>/\<close> and the search for a double quote give the
  same answers on the encoding as on the code points. \<open>str.lower\<close> depends on the
  Unicode case tables of the Python runtime, which are no part of the repository: every
  function that lower-cases takes the case folding as its first argument \<open>lower\<close>, and
  the general theorems hold for every such function. \<open>ascii_lower\<close> is \<open>str.lower\<close>
  on ASCII text and is used to evaluate concrete inputs.
\<close>

definition ascii_lower :: "string \<Rightarrow> string" where
  "ascii_lower =
     map (\<lambda>c. case map_of (zip ''ABCDEFGHIJKLMNOPQRSTUVWXYZ'' ''abcdefghijklmnopqrstuvwxyz'') c of
                None \<Rightarrow> c
              | Some l \<Rightarrow> l)"

text \<open>\<open>sub in s\<close>\<close>

definition py_in :: "string \<Rightarrow> string \<Rightarrow> bool" where
  "py_in sub s = sublist sub s"

text \<open>\<open>s.startswith(p)\<close> and \<open>s.endswith(p)\<close>\<close>

definition startswith :: "string \<Rightarrow> string \<Rightarrow> bool" where
  "startswith s p = prefix p s"

definition endswith :: "string \<Rightarrow> string \<Rightarrow> bool" where
  "endswith s p = suffix p s"

text \<open>\<open>s.split(sep)\<close> for a separator of one character: the result is never empty.\<close>

fun split :: "string \<Rightarrow> char \<Rightarrow> string list" where
  "split [] sep = [[]]"
| "split (c # cs) sep =
     (if c = sep then [] # split cs sep
      else (case split cs sep of
              [] \<Rightarrow> [[c]]
            | w # ws \<Rightarrow> (c # w) # ws))"

text \<open>\<open>sep.join(parts)\<close>\<close>

fun join :: "string \<Rightarrow> string list \<Rightarrow> string" where
  "join sep [] = []"
| "join sep [x] = x"
| "join sep (x # y # ys) = x @ sep @ join sep (y # ys)"

text \<open>
  \<open>re.search(r'filename="?([^"]+)"?', s)\<close>, returning group 1 of the leftmost match.
  At a position where \<open>filename=\<close> is read, the optional quote is taken when present,
  and the group is the longest run of characters other than the double quote (\<open>0x22\<close>)
  that follows; the run must not be empty. When the quote was taken and the run after it
  is empty, giving the quote back does not help (the group would have to start with the
  quote), so the search moves on to the next position.
\<close>

fun filename_match :: "string \<Rightarrow> string option" where
  "filename_match [] = None"
| "filename_match (c # cs) =
     (if startswith (c # cs) ''filename='' then
        (let rest = drop 9 (c # cs);
             body = (case rest of
                       [] \<Rightarrow> []
                     | q # r \<Rightarrow> if q = CHR 0x22 then r else rest);
             group1 = takeWhile (\<lambda>x. x \<noteq> CHR 0x22) body
         in if group1 = [] then filename_match cs else Some group1)
      else filename_match cs)"

section \<open>Keyword and extension tables\<close>

text \<open>
  The two tables are written out in \<open>analyze_url\<close>, \<open>extract_download_links\<close> and
  \<open>analyze_with_browser\<close>, with the same entries each time. The third and the fifth
  keyword are not ASCII and are given by their UTF-8 bytes.
\<close>

definition download_keywords :: "string list" where
  "download_keywords =
     [''download'', ''descargar'',
      ''t'' @ [CHR 0xC3, CHR 0xA9] @ ''l'' @ [CHR 0xC3, CHR 0xA9] @ ''charger'',
      ''herunterladen'',
      [CHR 0xD1, CHR 0x81, CHR 0xD0, CHR 0xBA, CHR 0xD0, CHR 0xB0, CHR 0xD1, CHR 0x87,
       CHR 0xD0, CHR 0xB0, CHR 0xD1, CHR 0x82, CHR 0xD1, CHR 0x8C]]"

definition file_extensions :: "string list" where
  "file_extensions =
     [''.zip'', ''.pdf'', ''.exe'', ''.dmg'', ''.tar.gz'', ''.mp4'', ''.mp3'', ''.doc'',
      ''.docx'', ''.xls'', ''.xlsx'']"

section \<open>Direct download check\<close>

text \<open>
  Lines 56 to 72 of \<open>analyze_url\<close> in \<open>app/agents.py\<close> (201 to 214 in
  \<open>streamlit_app.py\<close>, the same text): the pair \<open>(is_direct_download, filename)\<close>
  computed from the request URL and the \<open>Content-Disposition\<close> header. The header is
  examined first, the extension loop runs after it whatever the header gave.
\<close>

definition is_direct_download_url ::
  "(string \<Rightarrow> string) \<Rightarrow> string \<Rightarrow> string \<Rightarrow> bool \<times> string option" where
  "is_direct_download_url lower url content_disposition =
     (let (is_direct_download, filename) =
            (if py_in ''attachment'' content_disposition
             then (True, filename_match content_disposition)
             else (False, None))
      in if list_ex (\<lambda>ext. endswith (lower url) ext) file_extensions
         then (True, Some (last (split url CHR ''/'')))
         else (is_direct_download, filename))"

section \<open>Anchors and link extraction\<close>

text \<open>
  An anchor as the HTML parser presents it: the \<open>href\<close> attribute, the text content
  and the \<open>download\<close> attribute, \<open>None\<close> when the tag has none.
\<close>

record anchor =
  href :: string
  anchor_text :: string
  download :: "string option"

text \<open>
  The three tests of the loop over \<open>soup.find_all('a', href=True)\<close>, in the order of
  the loop: \<open>True\<close> when the loop appends the anchor's \<open>href\<close>.
\<close>

definition static_match :: "(string \<Rightarrow> string) \<Rightarrow> anchor \<Rightarrow> bool" where
  "static_match lower a_tag =
     (let text = lower (anchor_text a_tag) in
      if download a_tag \<noteq> None then True
      else if list_ex (\<lambda>keyword. py_in keyword text \<or> py_in keyword (lower (href a_tag)))
                download_keywords
      then True
      else list_ex (\<lambda>ext. endswith (lower (href a_tag)) ext) file_extensions)"

text \<open>
  The test of the loop over \<open>page.querySelectorAll('a[href]')\<close> in
  \<open>analyze_with_browser\<close>, on the pair of \<open>element.href\<close> and \<open>element.textContent\<close>.
\<close>

definition browser_match :: "(string \<Rightarrow> string) \<Rightarrow> string \<times> string \<Rightarrow> bool" where
  "browser_match lower e =
     (case e of (element_href, element_text) \<Rightarrow>
        list_ex (\<lambda>keyword. py_in keyword (lower element_text)) download_keywords
        \<or> list_ex (\<lambda>ext. endswith (lower element_href) ext) file_extensions)"

text \<open>
  The result of \<open>urlparse\<close>, restricted to the three components the program reads.
\<close>

record parsed_url =
  scheme :: string
  netloc :: string
  path :: string

text \<open>
  The body of the loop "Convert relative URLs to absolute" (lines 134 to 144 of
  \<open>app/agents.py\<close>, 102 to 112 of \<open>streamlit_app.py\<close>) for one link.
\<close>

definition absolute_link :: "parsed_url \<Rightarrow> string \<Rightarrow> string" where
  "absolute_link parsed_base link =
     (let base_domain = scheme parsed_base @ ''://'' @ netloc parsed_base in
      if startswith link ''http'' then link
      else if startswith link ''//'' then scheme parsed_base @ '':'' @ link
      else if startswith link ''/'' then base_domain @ link
      else (let dir = join ''/'' (butlast (split (path parsed_base) CHR ''/'')) @ ''/''
            in base_domain @ dir @ link))"

section \<open>The outside world\<close>

text \<open>
  What \<open>soup = BeautifulSoup(response.text, "html.parser")\<close> shows of a document:
  the text of \<open>soup.find("title")\<close>, \<open>None\<close> when there is no such tag, and the list
  \<open>soup.find_all('a', href=True)\<close> in document order.
\<close>

record html =
  title_tag :: "string option"
  a_tags :: "anchor list"

text \<open>
  A response of \<open>requests.get\<close> that passed \<open>raise_for_status\<close>: the headers, the
  body as the parser reads it, the status code and \<open>len(response.content)\<close>.
\<close>

record response =
  headers :: "string \<rightharpoonup> string"
  body :: html
  status_code :: int
  content_length :: nat

text \<open>
  The page the headless browser shows after \<open>page.goto\<close>: \<open>page.title()\<close> and, for
  each element of \<open>page.querySelectorAll('a[href]')\<close> in DOM order, the pair of
  \<open>element.href\<close> and \<open>element.textContent\<close>.
\<close>

record rendered_page =
  page_title :: string
  elements :: "(string \<times> string) list"

text \<open>
  Everything the program asks of its libraries and of the network, as functions of the
  URL. \<open>Inl msg\<close> is an exception whose \<open>str(e)\<close> is \<open>msg\<close>:
  \<^item> \<open>urlparse\<close>: the parse of a URL (it raises \<open>ValueError\<close> on some inputs);
  \<^item> \<open>http_get\<close>: \<open>requests.get\<close> followed by \<open>raise_for_status\<close> and the HTML
    parse, any of which may raise;
  \<^item> \<open>browser\<close>: the whole \<open>try\<close> block of \<open>analyze_with_browser\<close> up to
    \<open>browser.close()\<close>, any step of which may raise;
  \<^item> \<open>lower\<close>: \<open>str.lower\<close>.
\<close>

record world =
  urlparse :: "string \<Rightarrow> string + parsed_url"
  http_get :: "string \<Rightarrow> string + response"
  browser :: "string \<Rightarrow> string + rendered_page"
  lower :: "string \<Rightarrow> string"

text \<open>The network calls a run makes, in order.\<close>

datatype event = HttpGet string | BrowserLaunch string

section \<open>Link extraction\<close>

text \<open>
  \<open>extract_download_links(html_content, base_url)\<close>, the same text in both files. The
  loop appends the raw \<open>href\<close> of every anchor that passes one of the three tests;
  \<open>urlparse(base_url)\<close> is called after the loop.
\<close>

definition extract_download_links :: "world \<Rightarrow> html \<Rightarrow> string \<Rightarrow> string + string list" where
  "extract_download_links w html_content base_url =
     (let links = map href (filter (static_match (lower w)) (a_tags html_content)) in
      case urlparse w base_url of
        Inl e \<Rightarrow> Inl e
      | Inr parsed_base \<Rightarrow> Inr (map (absolute_link parsed_base) links))"

section \<open>The agent of \<open>app/agents.py\<close>\<close>

text \<open>The dictionary stored under \<open>"analysis"\<close>; a key the browser pass leaves out is \<open>None\<close>.\<close>

record analysis_info =
  a_url :: string
  a_title :: "string option"
  a_content_type :: "string option"
  a_is_html :: bool
  a_is_direct_download :: bool
  a_filename :: "string option"
  a_status_code :: "int option"
  a_size :: "nat option"

text \<open>The dictionary built by \<open>prepare_final_result\<close>.\<close>

record result =
  r_success :: bool
  r_url :: string
  r_error :: "string option"
  r_is_direct_download :: bool
  r_download_links :: "string list"
  r_recommended_link :: "string option"
  r_title :: "string option"
  r_content_type :: "string option"

text \<open>
  \<open>AgentState\<close>. A key that is absent from the dictionary is \<open>None\<close>; no node ever
  stores Python's \<open>None\<close> under a key. \<open>needs_browser\<close> is only ever set to \<open>True\<close>
  and only read through \<open>state.get("needs_browser", False)\<close>, so absent is \<open>False\<close>.
\<close>

record agent_state =
  url :: string
  analysis :: "analysis_info option"
  download_links :: "string list option"
  error :: "string option"
  needs_browser :: bool
  final_result :: "result option"

text \<open>The \<open>except\<close> branch of \<open>analyze_url\<close>.\<close>

definition analyze_url_except :: "string \<Rightarrow> agent_state \<Rightarrow> agent_state" where
  "analyze_url_except e state =
     state\<lparr>error := Some (''Error analyzing URL: '' @ e), needs_browser := True\<rparr>"

definition analyze_url :: "world \<Rightarrow> agent_state \<Rightarrow> event list \<times> agent_state" where
  "analyze_url w state =
     (case urlparse w (url state) of
        Inl e \<Rightarrow> ([], analyze_url_except e state)
      | Inr parsed \<Rightarrow>
          if scheme parsed = [] \<or> netloc parsed = []
          then ([], state\<lparr>error := Some ''Invalid URL format''\<rparr>)
          else
            (case http_get w (url state) of
               Inl e \<Rightarrow> ([HttpGet (url state)], analyze_url_except e state)
             | Inr resp \<Rightarrow>
                 (let content_type =
                        (case headers resp ''Content-Type'' of None \<Rightarrow> [] | Some v \<Rightarrow> v);
                      is_html = py_in ''text/html'' content_type;
                      title = (if is_html then title_tag (body resp) else None);
                      content_disposition =
                        (case headers resp ''Content-Disposition'' of None \<Rightarrow> [] | Some v \<Rightarrow> v);
                      (is_direct_download, filename) =
                        is_direct_download_url (lower w) (url state) content_disposition;
                      state1 = state\<lparr>analysis := Some
                        \<lparr>a_url = url state, a_title = title,
                         a_content_type = Some content_type, a_is_html = is_html,
                         a_is_direct_download = is_direct_download, a_filename = filename,
                         a_status_code = Some (status_code resp),
                         a_size = Some (content_length resp)\<rparr>\<rparr>
                  in if is_html then
                       (case extract_download_links w (body resp) (url state) of
                          Inl e \<Rightarrow> ([HttpGet (url state)], analyze_url_except e state1)
                        | Inr links \<Rightarrow>
                            ([HttpGet (url state)],
                             (if links = []
                              then state1\<lparr>download_links := Some links, needs_browser := True\<rparr>
                              else state1\<lparr>download_links := Some links\<rparr>)))
                     else ([HttpGet (url state)], state1))))"

text \<open>
  \<open>analyze_with_browser\<close>. The state is written only after \<open>browser.close()\<close>, so an
  exception finds it as \<open>analyze_url\<close> left it. \<open>not state.get("error")\<close> holds when
  the key is absent and when it holds the empty string.
\<close>

definition analyze_with_browser :: "world \<Rightarrow> agent_state \<Rightarrow> event list \<times> agent_state" where
  "analyze_with_browser w state =
     (case browser w (url state) of
        Inl e \<Rightarrow>
          ([BrowserLaunch (url state)],
           (if error state = None \<or> error state = Some []
            then state\<lparr>error := Some (''Error analyzing URL with browser: '' @ e)\<rparr>
            else state))
      | Inr page \<Rightarrow>
          (let links = map fst (filter (browser_match (lower w)) (elements page));
               state1 = (if analysis state = None
                         then state\<lparr>analysis := Some
                           \<lparr>a_url = url state, a_title = Some (page_title page),
                            a_content_type = None, a_is_html = True,
                            a_is_direct_download = False, a_filename = None,
                            a_status_code = None, a_size = None\<rparr>\<rparr>
                         else state)
           in ([BrowserLaunch (url state)],
               (if links = [] then state1 else state1\<lparr>download_links := Some links\<rparr>))))"

definition needs_browser_router :: "agent_state \<Rightarrow> string" where
  "needs_browser_router state =
     (if needs_browser state then ''analyze_with_browser'' else ''prepare_final_result'')"

text \<open>
  \<open>prepare_final_result\<close>: \<open>state.get("analysis", {})\<close> and
  \<open>state.get("download_links", [])\<close> give the empty dictionary and the empty list for an
  absent key.
\<close>

definition prepare_final_result :: "agent_state \<Rightarrow> agent_state" where
  "prepare_final_result state =
     (let links = (case download_links state of None \<Rightarrow> [] | Some l \<Rightarrow> l);
          is_direct = (case analysis state of None \<Rightarrow> False | Some a \<Rightarrow> a_is_direct_download a);
          res = \<lparr>r_success = (error state = None),
                 r_url = url state,
                 r_error = error state,
                 r_is_direct_download = is_direct,
                 r_download_links = links,
                 r_recommended_link = None,
                 r_title = (case analysis state of None \<Rightarrow> None | Some a \<Rightarrow> a_title a),
                 r_content_type =
                   (case analysis state of None \<Rightarrow> None | Some a \<Rightarrow> a_content_type a)\<rparr>
      in state\<lparr>final_result := Some
           (if is_direct then res\<lparr>r_recommended_link := Some (url state)\<rparr>
            else (case links of
                    [] \<Rightarrow> res
                  | first # _ \<Rightarrow> res\<lparr>r_recommended_link := Some first\<rparr>))\<rparr>)"

text \<open>
  The graph of \<open>create_url_analyzer_agent\<close>: \<open>analyze_url\<close>, then the node the router
  names, then \<open>prepare_final_result\<close>.
\<close>

definition url_analyzer_agent :: "world \<Rightarrow> agent_state \<Rightarrow> event list \<times> agent_state" where
  "url_analyzer_agent w state =
     (let (events1, state1) = analyze_url w state in
      if needs_browser_router state1 = ''analyze_with_browser''
      then (let (events2, state2) = analyze_with_browser w state1
            in (events1 @ events2, prepare_final_result state2))
      else (events1, prepare_final_result state1))"

text \<open>
  The call of the agent in \<open>app/main.py\<close>: the initial state holds the URL and nothing
  else.
\<close>

definition initial_state :: "string \<Rightarrow> agent_state" where
  "initial_state u =
     \<lparr>url = u, analysis = None, download_links = None, error = None,
      needs_browser = False, final_result = None\<rparr>"

definition resolve :: "world \<Rightarrow> string \<Rightarrow> event list \<times> agent_state" where
  "resolve w u = url_analyzer_agent w (initial_state u)"

section \<open>The script of \<open>streamlit_app.py\<close>\<close>

text \<open>
  The dictionary returned by the script's \<open>analyze_url\<close>. The result for an invalid
  URL has no \<open>"url"\<close> key; \<open>"needs_browser"\<close> is read only through the truth value of
  \<open>result.get("needs_browser")\<close>, so absent is \<open>False\<close>.
\<close>

record st_result =
  s_success :: bool
  s_url :: "string option"
  s_error :: "string option"
  s_is_direct_download :: bool
  s_download_links :: "string list"
  s_recommended_link :: "string option"
  s_title :: "string option"
  s_content_type :: "string option"
  s_needs_browser :: bool
  s_filename :: "string option"

text \<open>The truth value of \<open>d.get(key)\<close> for a key holding a string or nothing.\<close>

definition truthy :: "string option \<Rightarrow> bool" where
  "truthy x = (case x of None \<Rightarrow> False | Some v \<Rightarrow> v \<noteq> [])"

text \<open>The \<open>except\<close> branch of the script's \<open>analyze_url\<close>.\<close>

definition st_analyze_url_except :: "string \<Rightarrow> string \<Rightarrow> st_result" where
  "st_analyze_url_except e u =
     \<lparr>s_success = False, s_url = Some u,
      s_error = Some (''Error analyzing URL: '' @ e),
      s_is_direct_download = False, s_download_links = [], s_recommended_link = None,
      s_title = None, s_content_type = None, s_needs_browser = True, s_filename = None\<rparr>"

definition st_analyze_url :: "world \<Rightarrow> string \<Rightarrow> event list \<times> st_result" where
  "st_analyze_url w u =
     (case urlparse w u of
        Inl e \<Rightarrow> ([], st_analyze_url_except e u)
      | Inr parsed \<Rightarrow>
          if scheme parsed = [] \<or> netloc parsed = []
          then ([],
                \<lparr>s_success = False, s_url = None, s_error = Some ''Invalid URL format'',
                 s_is_direct_download = False, s_download_links = [],
                 s_recommended_link = None, s_title = None, s_content_type = None,
                 s_needs_browser = False, s_filename = None\<rparr>)
          else
            (case http_get w u of
               Inl e \<Rightarrow> ([HttpGet u], st_analyze_url_except e u)
             | Inr resp \<Rightarrow>
                 (let content_type =
                        (case headers resp ''Content-Type'' of None \<Rightarrow> [] | Some v \<Rightarrow> v);
                      is_html = py_in ''text/html'' content_type;
                      title = (if is_html then title_tag (body resp) else None);
                      content_disposition =
                        (case headers resp ''Content-Disposition'' of None \<Rightarrow> [] | Some v \<Rightarrow> v);
                      (is_direct_download, filename) =
                        is_direct_download_url (lower w) u content_disposition
                  in case (if is_html then extract_download_links w (body resp) u else Inr []) of
                       Inl e \<Rightarrow> ([HttpGet u], st_analyze_url_except e u)
                     | Inr links \<Rightarrow>
                         ([HttpGet u],
                          \<lparr>s_success = True, s_url = Some u, s_error = None,
                           s_is_direct_download = is_direct_download,
                           s_download_links = links,
                           s_recommended_link =
                             (if is_direct_download then Some u
                              else (case links of [] \<Rightarrow> None | first # _ \<Rightarrow> Some first)),
                           s_title = title, s_content_type = Some content_type,
                           s_needs_browser = (is_html \<and> links = []),
                           s_filename = filename\<rparr>))))"

text \<open>The dictionary returned by the script's \<open>analyze_with_browser\<close>.\<close>

record browser_result =
  b_title :: "string option"
  b_download_links :: "string list"
  b_error :: "string option"

definition st_analyze_with_browser :: "world \<Rightarrow> string \<Rightarrow> event list \<times> browser_result" where
  "st_analyze_with_browser w u =
     (case browser w u of
        Inl e \<Rightarrow>
          ([BrowserLaunch u],
           \<lparr>b_title = None, b_download_links = [],
            b_error = Some (''Error analyzing URL with browser: '' @ e)\<rparr>)
      | Inr page \<Rightarrow>
          ([BrowserLaunch u],
           \<lparr>b_title = Some (page_title page),
            b_download_links = map fst (filter (browser_match (lower w)) (elements page)),
            b_error = None\<rparr>))"

text \<open>
  The body of \<open>if st.button("Analyze URL")\<close> up to the display of the result
  (lines 265 to 283): \<open>None\<close> when the input is empty and the script only shows
  "Please enter a URL".
\<close>

definition streamlit_main :: "world \<Rightarrow> string \<Rightarrow> (event list \<times> st_result) option" where
  "streamlit_main w u =
     (if u = [] then None
      else
        (let (events1, res) = st_analyze_url w u in
         if s_needs_browser res \<and> \<not> truthy (s_recommended_link res)
         then
           (let (events2, browser_res) = st_analyze_with_browser w u;
                res1 = (case b_download_links browser_res of
                          [] \<Rightarrow> res
                        | first # _ \<Rightarrow>
                            res\<lparr>s_download_links := b_download_links browser_res,
                                s_recommended_link := Some first\<rparr>);
                res2 = (if truthy (b_title browser_res) \<and> \<not> truthy (s_title res1)
                        then res1\<lparr>s_title := b_title browser_res\<rparr>
                        else res1)
            in Some (events1 @ events2, res2))
         else Some (events1, res)))"

section \<open>Concrete runs\<close>

text \<open>
  A world that knows one URL: how it parses, what the HTTP request for it gives and what
  the browser shows for it. Case folding is \<open>ascii_lower\<close>; all the text below is ASCII.
\<close>

definition single_page_world ::
  "string \<Rightarrow> parsed_url \<Rightarrow> string + response \<Rightarrow> string + rendered_page \<Rightarrow> world" where
  "single_page_world u parsed fetched rendered =
     \<lparr>urlparse = (\<lambda>x. if x = u then Inr parsed else Inl ''Invalid URL''),
      http_get = (\<lambda>x. if x = u then fetched else Inl ''Connection refused''),
      browser = (\<lambda>x. if x = u then rendered else Inl ''Navigation failed''),
      lower = ascii_lower\<rparr>"

definition html_response :: "anchor list \<Rightarrow> response" where
  "html_response as =
     \<lparr>headers = [''Content-Type'' \<mapsto> ''text/html; charset=utf-8''],
      body = \<lparr>title_tag = Some ''Files'', a_tags = as\<rparr>,
      status_code = 200, content_length = 512\<rparr>"

definition page_url :: string where
  "page_url = ''https://example.com/page''"

definition page_parsed :: parsed_url where
  "page_parsed = \<lparr>scheme = ''https'', netloc = ''example.com'', path = ''/page''\<rparr>"

text \<open>An HTML page with one anchor, \<open><a href="files/doc.pdf">download</a>\<close>.\<close>

definition links_world :: world where
  "links_world =
     single_page_world page_url page_parsed
       (Inr (html_response [\<lparr>href = ''files/doc.pdf'', anchor_text = ''download'', download = None\<rparr>]))
       (Inl ''Browser closed unexpectedly'')"

text \<open>An HTML page without anchors; the browser times out.\<close>

definition render_fails_world :: world where
  "render_fails_world =
     single_page_world page_url page_parsed
       (Inr (html_response []))
       (Inl ''Navigation Timeout Exceeded: 30000 ms exceeded.'')"

text \<open>The HTTP request times out and so does the browser.\<close>

definition both_fail_world :: world where
  "both_fail_world =
     single_page_world page_url page_parsed
       (Inl ''Read timed out.'')
       (Inl ''Navigation Timeout Exceeded: 30000 ms exceeded.'')"

text \<open>The HTTP request times out; the browser shows a page with one download link.\<close>

definition static_fails_world :: world where
  "static_fails_world =
     single_page_world page_url page_parsed
       (Inl ''Read timed out.'')
       (Inr \<lparr>page_title = ''Setup'',
             elements = [(''https://example.com/files/setup.exe'', ''Download now'')]\<rparr>)"

text \<open>A URL that ends in \<open>.zip\<close> and answers with an HTML page without anchors.\<close>

definition zip_url :: string where
  "zip_url = ''http://example.com/file.zip''"

definition zip_html_world :: world where
  "zip_html_world =
     single_page_world zip_url
       \<lparr>scheme = ''http'', netloc = ''example.com'', path = ''/file.zip''\<rparr>
       (Inr (html_response []))
       (Inr \<lparr>page_title = ''Files'', elements = []\<rparr>)"

text \<open>An input without scheme: \<open>urlparse\<close> puts all of it into the path.\<close>

definition bare_url :: string where
  "bare_url = ''example.com/file''"

definition invalid_world :: world where
  "invalid_world =
     single_page_world bare_url
       \<lparr>scheme = [], netloc = [], path = ''example.com/file''\<rparr>
       (Inl ''Invalid URL: No scheme supplied'')
       (Inl ''Navigation failed'')"

text \<open>The header \<open>Content-Disposition: attachment; filename="report.pdf"\<close>.\<close>

definition report_header :: string where
  "report_header = ''attachment; filename='' @ [CHR 0x22] @ ''report.pdf'' @ [CHR 0x22]"

section \<open>Facts about the nodes\<close>

lemmas string_defs =
  py_in_def startswith_def endswith_def suffix_to_prefix sublist_Cons_right
  download_keywords_def file_extensions_def ascii_lower_def

lemmas node_defs =
  initial_state_def analyze_url_def analyze_url_except_def analyze_with_browser_def
  needs_browser_router_def prepare_final_result_def extract_download_links_def
  is_direct_download_url_def static_match_def browser_match_def absolute_link_def Let_def

lemmas script_defs =
  streamlit_main_def st_analyze_url_def st_analyze_url_except_def
  st_analyze_with_browser_def truthy_def extract_download_links_def
  is_direct_download_url_def static_match_def browser_match_def absolute_link_def Let_def

lemmas world_defs =
  single_page_world_def html_response_def page_url_def page_parsed_def

lemma router_iff: "(needs_browser_router s = ''analyze_with_browser'') = needs_browser s"
  by (simp add: needs_browser_router_def)

lemma snd_resolve:
  "snd (resolve w u) =
     (if needs_browser (snd (analyze_url w (initial_state u)))
      then prepare_final_result
             (snd (analyze_with_browser w (snd (analyze_url w (initial_state u)))))
      else prepare_final_result (snd (analyze_url w (initial_state u))))"
  by (cases "analyze_url w (initial_state u)";
      cases "analyze_with_browser w (snd (analyze_url w (initial_state u)))")
     (simp add: resolve_def url_analyzer_agent_def router_iff)

lemma fst_resolve:
  "fst (resolve w u) =
     (if needs_browser (snd (analyze_url w (initial_state u)))
      then fst (analyze_url w (initial_state u))
           @ fst (analyze_with_browser w (snd (analyze_url w (initial_state u))))
      else fst (analyze_url w (initial_state u)))"
  by (cases "analyze_url w (initial_state u)";
      cases "analyze_with_browser w (snd (analyze_url w (initial_state u)))")
     (simp add: resolve_def url_analyzer_agent_def router_iff)

lemma analyze_url_url: "url (snd (analyze_url w s)) = url s"
  by (auto simp: analyze_url_def analyze_url_except_def Let_def
           split: sum.splits prod.splits)

lemma analyze_with_browser_url: "url (snd (analyze_with_browser w s)) = url s"
  by (auto simp: analyze_with_browser_def Let_def split: sum.splits)

lemma resolve_finalized: "\<exists>s. snd (resolve w u) = prepare_final_result s \<and> url s = u"
proof -
  have "url (snd (analyze_url w (initial_state u))) = u"
    by (simp add: analyze_url_url initial_state_def)
  moreover have "url (snd (analyze_with_browser w (snd (analyze_url w (initial_state u))))) = u"
    by (simp add: analyze_with_browser_url analyze_url_url initial_state_def)
  ultimately show ?thesis
    unfolding snd_resolve by (cases "needs_browser (snd (analyze_url w (initial_state u)))") auto
qed

lemma prepare_final_result_direct:
  assumes "final_result (prepare_final_result s) = Some r" and "r_is_direct_download r"
  shows "r_recommended_link r = Some (url s)"
  using assms by (auto simp: prepare_final_result_def Let_def split: if_splits list.splits)

lemma prepare_final_result_not_direct:
  assumes "final_result (prepare_final_result s) = Some r" and "\<not> r_is_direct_download r"
  shows "r_recommended_link r =
           (case r_download_links r of [] \<Rightarrow> None | first # _ \<Rightarrow> Some first)"
  using assms by (auto simp: prepare_final_result_def Let_def split: if_splits list.splits)

text \<open>The three ways \<open>analyze_url\<close> ends on the initial state.\<close>

lemma analyze_url_parse_raises:
  assumes "urlparse w u = Inl e"
  shows "analyze_url w (initial_state u) =
           ([], (initial_state u)\<lparr>error := Some (''Error analyzing URL: '' @ e),
                                  needs_browser := True\<rparr>)"
  using assms by (simp add: analyze_url_def analyze_url_except_def initial_state_def)

lemma analyze_url_invalid:
  assumes "urlparse w u = Inr p" and "scheme p = [] \<or> netloc p = []"
  shows "analyze_url w (initial_state u) =
           ([], (initial_state u)\<lparr>error := Some ''Invalid URL format''\<rparr>)"
  using assms by (auto simp: analyze_url_def initial_state_def)

lemma analyze_url_fetch_raises:
  assumes "urlparse w u = Inr p" and "scheme p \<noteq> []" and "netloc p \<noteq> []"
    and "http_get w u = Inl e"
  shows "analyze_url w (initial_state u) =
           ([HttpGet u], (initial_state u)\<lparr>error := Some (''Error analyzing URL: '' @ e),
                                           needs_browser := True\<rparr>)"
  using assms by (simp add: analyze_url_def analyze_url_except_def initial_state_def)

lemma analyze_url_fetched:
  assumes "urlparse w u = Inr p" and "scheme p \<noteq> []" and "netloc p \<noteq> []"
    and "http_get w u = Inr resp"
    and "content_type = (case headers resp ''Content-Type'' of None \<Rightarrow> [] | Some v \<Rightarrow> v)"
    and "links = map (absolute_link p)
                   (map href (filter (static_match (lower w)) (a_tags (body resp))))"
  shows "error (snd (analyze_url w (initial_state u))) = None"
    and "map_option a_is_html (analysis (snd (analyze_url w (initial_state u))))
           = Some (py_in ''text/html'' content_type)"
    and "download_links (snd (analyze_url w (initial_state u)))
           = (if py_in ''text/html'' content_type then Some links else None)"
    and "needs_browser (snd (analyze_url w (initial_state u)))
           = (py_in ''text/html'' content_type \<and> links = [])"
    and "fst (analyze_url w (initial_state u)) = [HttpGet u]"
  using assms
  by (auto simp: analyze_url_def initial_state_def extract_download_links_def Let_def
           split: prod.splits)

lemma analyze_url_error_cases:
  assumes "error (snd (analyze_url w (initial_state u))) = Some e"
  shows "analysis (snd (analyze_url w (initial_state u))) = None"
    and "download_links (snd (analyze_url w (initial_state u))) = None"
    and "e \<noteq> []"
  using assms
  by (auto simp: analyze_url_def analyze_url_except_def initial_state_def
                 extract_download_links_def Let_def
           split: sum.splits prod.splits if_splits)

text \<open>
  Splitting and joining: the directory that the last branch of the normalizer puts
  before a relative link is the base path up to and including its last slash.
\<close>

lemma split_not_Nil: "split s sep \<noteq> []"
  by (induction s) (auto split: list.splits)

lemma split_no_sep: "sep \<notin> set s \<Longrightarrow> split s sep = [s]"
  by (induction s) auto

lemma split_append_sep: "split (d @ sep # rest) sep = split d sep @ split rest sep"
proof (induction d)
  case Nil
  show ?case by simp
next
  case (Cons c d)
  obtain w ws where "split d sep = w # ws"
    using split_not_Nil [of d sep] by (cases "split d sep") auto
  with Cons show ?case by simp
qed

lemma join_split: "join [sep] (split s sep) = s"
proof (induction s)
  case Nil
  show ?case by simp
next
  case (Cons c s)
  obtain w ws where ws: "split s sep = w # ws"
    using split_not_Nil [of s sep] by (cases "split s sep") auto
  show ?case
  proof (cases "c = sep")
    case True
    with Cons ws show ?thesis by simp
  next
    case False
    with Cons ws show ?thesis by (cases ws) auto
  qed
qed

lemma base_directory:
  assumes "CHR ''/'' \<notin> set segment"
  shows "join ''/'' (butlast (split (d @ ''/'' @ segment) CHR ''/'')) @ ''/'' = d @ ''/''"
  using assms by (simp add: split_append_sep split_no_sep join_split)

lemma absolute_link_relative:
  assumes "\<not> startswith link ''http''" and "\<not> startswith link ''/''"
    and "path parsed_base = d @ ''/'' @ segment" and "CHR ''/'' \<notin> set segment"
  shows "absolute_link parsed_base link
           = scheme parsed_base @ ''://'' @ netloc parsed_base @ d @ ''/'' @ link"
proof -
  have "\<not> startswith link ''//''"
    using assms(2) by (auto simp: startswith_def prefix_def)
  with assms(1,2) base_directory [OF assms(4), of d] assms(3) show ?thesis
    by (simp add: absolute_link_def)
qed

section \<open>Claims\<close>

subsection \<open>C1: which error the caller sees after a failed render\<close>

text \<open>
  C1, as stated: after escalation, a render error is shown to the caller exactly when the
  static pass had failed too; with a successful static pass the result has
  \<open>success = true\<close>, and when both passes fail the error is the render failure.

  The agent does the opposite. In \<open>render_fails_world\<close> the static pass succeeds on an
  HTML page without links, the browser times out, and the result has \<open>success = false\<close>
  with the render error. In \<open>both_fail_world\<close> both passes fail and the result carries
  the error of the static pass, not the render failure.
\<close>

theorem render_error_counterexample:
  "error (snd (analyze_url render_fails_world (initial_state page_url))) = None
   \<and> needs_browser (snd (analyze_url render_fails_world (initial_state page_url)))
   \<and> browser render_fails_world page_url
       = Inl ''Navigation Timeout Exceeded: 30000 ms exceeded.''
   \<and> map_option r_success (final_result (snd (resolve render_fails_world page_url)))
       = Some False
   \<and> map_option r_error (final_result (snd (resolve render_fails_world page_url)))
       = Some (Some ''Error analyzing URL with browser: Navigation Timeout Exceeded: 30000 ms exceeded.'')
   \<and> error (snd (analyze_url both_fail_world (initial_state page_url)))
       = Some ''Error analyzing URL: Read timed out.''
   \<and> browser both_fail_world page_url
       = Inl ''Navigation Timeout Exceeded: 30000 ms exceeded.''
   \<and> map_option r_error (final_result (snd (resolve both_fail_world page_url)))
       = Some (Some ''Error analyzing URL: Read timed out.'')"
  unfolding snd_resolve
  by (simp add: node_defs world_defs string_defs render_fails_world_def both_fail_world_def)

text \<open>
  C1, amended: after escalation to the browser pass, a render failure never leaves
  \<open>success = true\<close>. It is the error the caller sees exactly when the static pass had
  not failed (the error is then "Error analyzing URL with browser: " followed by the
  message); when the static pass had failed, the caller sees the error of the static
  pass and the render failure is not recorded.
\<close>

theorem render_error_kept_only_without_static_error:
  assumes "needs_browser (snd (analyze_url w (initial_state u)))"
    and "browser w u = Inl msg"
    and "final_result (snd (resolve w u)) = Some r"
  shows "\<not> r_success r
         \<and> r_error r =
             (case error (snd (analyze_url w (initial_state u))) of
                None \<Rightarrow> Some (''Error analyzing URL with browser: '' @ msg)
              | Some e \<Rightarrow> Some e)"
proof -
  define s1 where "s1 = snd (analyze_url w (initial_state u))"
  have u: "url s1 = u"
    by (simp add: s1_def analyze_url_url initial_state_def)
  have nonempty: "error s1 \<noteq> Some []"
    using analyze_url_error_cases(3) [of w u "[]"] by (auto simp: s1_def)
  have fin: "final_result (prepare_final_result (snd (analyze_with_browser w s1))) = Some r"
    using assms(1,3) by (simp add: snd_resolve s1_def)
  show ?thesis
  proof (cases "error s1")
    case None
    with fin u assms(2) show ?thesis
      unfolding s1_def [symmetric]
      by (auto simp: analyze_with_browser_def prepare_final_result_def Let_def
               split: list.splits if_splits)
  next
    case (Some e)
    with nonempty fin u assms(2) show ?thesis
      unfolding s1_def [symmetric]
      by (auto simp: analyze_with_browser_def prepare_final_result_def Let_def
               split: list.splits if_splits)
  qed
qed

theorem render_error_kept_only_without_static_error_witness:
  "needs_browser (snd (analyze_url render_fails_world (initial_state page_url)))
   \<and> browser render_fails_world page_url
       = Inl ''Navigation Timeout Exceeded: 30000 ms exceeded.''
   \<and> (\<exists>r. final_result (snd (resolve render_fails_world page_url)) = Some r
          \<and> \<not> r_success r
          \<and> r_error r = Some (''Error analyzing URL with browser: ''
                               @ ''Navigation Timeout Exceeded: 30000 ms exceeded.''))"
proof -
  have nb: "needs_browser (snd (analyze_url render_fails_world (initial_state page_url)))"
    by (simp add: node_defs world_defs string_defs render_fails_world_def)
  have br: "browser render_fails_world page_url
              = Inl ''Navigation Timeout Exceeded: 30000 ms exceeded.''"
    by (simp add: world_defs render_fails_world_def)
  have err: "error (snd (analyze_url render_fails_world (initial_state page_url))) = None"
    by (simp add: node_defs world_defs string_defs render_fails_world_def)
  obtain r where r: "final_result (snd (resolve render_fails_world page_url)) = Some r"
    using resolve_finalized [of render_fails_world page_url]
    by (auto simp: prepare_final_result_def Let_def)
  from render_error_kept_only_without_static_error [OF nb br r] err
  have "\<not> r_success r
        \<and> r_error r = Some (''Error analyzing URL with browser: ''
                             @ ''Navigation Timeout Exceeded: 30000 ms exceeded.'')"
    by simp
  with nb br r show ?thesis by blast
qed

subsection \<open>C2: when the static pass asks for the browser\<close>

text \<open>
  C2, as stated: for a fetched URL the static pass sets \<open>needs_browser\<close> exactly when
  the response is HTML and no candidate link was extracted, and never when the page was
  classified as a direct download or when the response is not HTML.

  The middle part fails. In \<open>zip_html_world\<close> the URL ends in \<open>.zip\<close>, so the page is
  classified as a direct download, and the response is an HTML page without anchors:
  both passes of the classification are kept and \<open>needs_browser\<close> is set, in the agent
  and in the script.
\<close>

theorem needs_browser_direct_download_counterexample:
  "http_get zip_html_world zip_url = Inr (html_response [])
   \<and> map_option a_is_direct_download
        (analysis (snd (analyze_url zip_html_world (initial_state zip_url)))) = Some True
   \<and> needs_browser (snd (analyze_url zip_html_world (initial_state zip_url)))
   \<and> s_is_direct_download (snd (st_analyze_url zip_html_world zip_url))
   \<and> s_needs_browser (snd (st_analyze_url zip_html_world zip_url))"
  by (simp add: node_defs script_defs world_defs string_defs zip_html_world_def zip_url_def)

text \<open>
  C2, amended: for every successfully fetched URL, the static pass sets \<open>needs_browser\<close>
  exactly when the response is HTML (its \<open>Content-Type\<close> contains \<open>text/html\<close>) and
  zero candidate links were extracted; it never sets it when the response is not HTML.
  Whether the page was classified as a direct download plays no part. This holds for
  \<open>analyze_url\<close> of the agent and of the script alike.
\<close>

theorem needs_browser_iff_html_without_links:
  assumes "urlparse w u = Inr p" and "scheme p \<noteq> []" and "netloc p \<noteq> []"
    and "http_get w u = Inr resp"
    and "content_type = (case headers resp ''Content-Type'' of None \<Rightarrow> [] | Some v \<Rightarrow> v)"
    and "links = map (absolute_link p)
                   (map href (filter (static_match (lower w)) (a_tags (body resp))))"
  shows "error (snd (analyze_url w (initial_state u))) = None
         \<and> needs_browser (snd (analyze_url w (initial_state u)))
             = (py_in ''text/html'' content_type \<and> links = [])
         \<and> download_links (snd (analyze_url w (initial_state u)))
             = (if py_in ''text/html'' content_type then Some links else None)
         \<and> s_success (snd (st_analyze_url w u))
         \<and> s_needs_browser (snd (st_analyze_url w u))
             = (py_in ''text/html'' content_type \<and> links = [])
         \<and> s_download_links (snd (st_analyze_url w u))
             = (if py_in ''text/html'' content_type then links else [])"
proof -
  have agent: "error (snd (analyze_url w (initial_state u))) = None
         \<and> needs_browser (snd (analyze_url w (initial_state u)))
             = (py_in ''text/html'' content_type \<and> links = [])
         \<and> download_links (snd (analyze_url w (initial_state u)))
             = (if py_in ''text/html'' content_type then Some links else None)"
    using analyze_url_fetched(1,3,4) [OF assms] by simp
  have script: "s_success (snd (st_analyze_url w u))
         \<and> s_needs_browser (snd (st_analyze_url w u))
             = (py_in ''text/html'' content_type \<and> links = [])
         \<and> s_download_links (snd (st_analyze_url w u))
             = (if py_in ''text/html'' content_type then links else [])"
    using assms
    by (auto simp: st_analyze_url_def extract_download_links_def Let_def split: prod.splits)
  from agent script show ?thesis by simp
qed

theorem needs_browser_iff_html_without_links_witness:
  "urlparse render_fails_world page_url = Inr page_parsed
   \<and> scheme page_parsed \<noteq> [] \<and> netloc page_parsed \<noteq> []
   \<and> http_get render_fails_world page_url = Inr (html_response [])
   \<and> needs_browser (snd (analyze_url render_fails_world (initial_state page_url)))
   \<and> s_needs_browser (snd (st_analyze_url render_fails_world page_url))
   \<and> download_links (snd (analyze_url render_fails_world (initial_state page_url)))
       = Some []"
proof -
  have p: "urlparse render_fails_world page_url = Inr page_parsed"
    by (simp add: world_defs render_fails_world_def)
  have s: "scheme page_parsed \<noteq> []" and n: "netloc page_parsed \<noteq> []"
    by (simp_all add: page_parsed_def)
  have g: "http_get render_fails_world page_url = Inr (html_response [])"
    by (simp add: world_defs render_fails_world_def)
  have html: "py_in ''text/html''
                (case headers (html_response []) ''Content-Type'' of
                   None \<Rightarrow> [] | Some v \<Rightarrow> v)"
    by (simp add: html_response_def string_defs)
  have none: "map (absolute_link page_parsed)
                (map href (filter (static_match (lower render_fails_world))
                             (a_tags (body (html_response []))))) = []"
    by (simp add: html_response_def)
  from needs_browser_iff_html_without_links [OF p s n g refl refl] html none
  have "needs_browser (snd (analyze_url render_fails_world (initial_state page_url)))
        \<and> s_needs_browser (snd (st_analyze_url render_fails_world page_url))
        \<and> download_links (snd (analyze_url render_fails_world (initial_state page_url)))
            = Some []"
    by simp
  with p s n g show ?thesis by simp
qed

subsection \<open>C3: the test of the browser pass against the test of the static pass\<close>

text \<open>
  C3, as stated: the browser pass accepts an anchor by the same rule as the static pass
  (a keyword in the lower-cased text or in the lower-cased href, or an extension at the
  end of the href), so that both accept the same pairs of href and text apart from the
  \<open>download\<close> attribute.

  The browser pass does not look for keywords in the href: an anchor without
  \<open>download\<close> attribute whose href contains "download" and whose text does not is
  accepted by the static pass and rejected by the browser pass.
\<close>

theorem browser_match_counterexample:
  "static_match ascii_lower
     \<lparr>href = ''https://example.com/download/latest'', anchor_text = ''Get it'',
      download = None\<rparr>
   \<and> \<not> browser_match ascii_lower (''https://example.com/download/latest'', ''Get it'')"
  by (simp add: static_match_def browser_match_def string_defs)

text \<open>
  C3, amended: the browser pass accepts an anchor iff some keyword is a substring of the
  lower-cased visible text, or the href ends (case-insensitively) with a configured
  extension; keywords in the href are not looked for. The static pass accepts, apart from
  the \<open>download\<close> attribute, every pair the browser pass accepts and also the pairs
  whose lower-cased href contains a keyword.
\<close>

theorem browser_match_is_static_match_without_href_keywords:
  "browser_match lc (h, t)
     = (list_ex (\<lambda>keyword. py_in keyword (lc t)) download_keywords
        \<or> list_ex (\<lambda>ext. endswith (lc h) ext) file_extensions)
   \<and> static_match lc \<lparr>href = h, anchor_text = t, download = None\<rparr>
     = (browser_match lc (h, t)
        \<or> list_ex (\<lambda>keyword. py_in keyword (lc h)) download_keywords)
   \<and> static_match lc \<lparr>href = h, anchor_text = t, download = Some d\<rparr>"
  by (auto simp: browser_match_def static_match_def Let_def list_ex_iff)

theorem browser_match_is_static_match_without_href_keywords_witness:
  "browser_match ascii_lower (''https://example.com/files/setup.exe'', ''Download now'')
   \<and> static_match ascii_lower
       \<lparr>href = ''https://example.com/files/setup.exe'', anchor_text = ''Download now'',
        download = None\<rparr>"
proof -
  have "browser_match ascii_lower (''https://example.com/files/setup.exe'', ''Download now'')"
    by (simp add: browser_match_def string_defs)
  with browser_match_is_static_match_without_href_keywords
         [of ascii_lower "''https://example.com/files/setup.exe''" "''Download now''"]
  show ?thesis by blast
qed

subsection \<open>C4: the link normalizer\<close>

text \<open>
  C4: the normalizer returns an href unchanged only if it starts with an HTTP(S) scheme
  token, and resolves every other href that does not start with a slash against the
  directory of the base, also one that begins with letters such as \<open>httpfile.zip\<close>.

  The loop "Convert relative URLs to absolute" tests \<open>link.startswith('http')\<close>, the
  four letters without the colon: the relative href \<open>httpfile.zip\<close> passes the test and
  is returned as it is, where the fourth rule gives
  \<open>https://example.com/dir/httpfile.zip\<close>.
\<close>

theorem relative_href_with_http_prefix_unchanged:
  "absolute_link \<lparr>scheme = ''https'', netloc = ''example.com'', path = ''/dir/page''\<rparr>
     ''httpfile.zip'' = ''httpfile.zip''
   \<and> ''https'' @ ''://'' @ ''example.com''
       @ join ''/'' (butlast (split ''/dir/page'' CHR ''/'')) @ ''/'' @ ''httpfile.zip''
     = ''https://example.com/dir/httpfile.zip''"
  by (simp add: absolute_link_def startswith_def)

subsection \<open>C5: a direct download recommends the request URL\<close>

text \<open>
  C5: in every finalized result in which \<open>is_direct_download\<close> is true, whatever the
  fetched body is, \<open>recommended_link\<close> is the original request URL. For the agent
  this is the result of \<open>prepare_final_result\<close> at the end of the graph, for the script
  the dictionary after the optional browser step.
\<close>

theorem direct_download_recommends_request_url:
  "(final_result (snd (resolve w u)) = Some r \<and> r_is_direct_download r
      \<longrightarrow> r_recommended_link r = Some u \<and> r_url r = u)
   \<and> (streamlit_main w u = Some (events, sr) \<and> s_is_direct_download sr
      \<longrightarrow> s_recommended_link sr = Some u)"
proof -
  have agent: "r_recommended_link r = Some u \<and> r_url r = u"
    if "final_result (snd (resolve w u)) = Some r" and "r_is_direct_download r"
  proof -
    obtain s where s: "snd (resolve w u) = prepare_final_result s" "url s = u"
      using resolve_finalized by blast
    with that have "r_recommended_link r = Some u"
      using prepare_final_result_direct [of s r] by simp
    moreover from s that(1) have "r_url r = u"
      by (auto simp: prepare_final_result_def Let_def split: if_splits list.splits)
    ultimately show ?thesis by simp
  qed
  have script: "s_recommended_link sr = Some u"
    if "streamlit_main w u = Some (events, sr)" and "s_is_direct_download sr"
    using that
    by (auto simp: streamlit_main_def st_analyze_url_def st_analyze_url_except_def
                   st_analyze_with_browser_def truthy_def Let_def
             split: if_splits sum.splits prod.splits list.splits)
  from agent script show ?thesis by blast
qed

theorem direct_download_recommends_request_url_witness:
  "map_option r_is_direct_download (final_result (snd (resolve zip_html_world zip_url)))
     = Some True
   \<and> map_option r_recommended_link (final_result (snd (resolve zip_html_world zip_url)))
     = Some (Some zip_url)
   \<and> map_option (s_is_direct_download \<circ> snd) (streamlit_main zip_html_world zip_url)
     = Some True
   \<and> map_option (s_recommended_link \<circ> snd) (streamlit_main zip_html_world zip_url)
     = Some (Some zip_url)"
proof -
  obtain r where r: "final_result (snd (resolve zip_html_world zip_url)) = Some r"
    using resolve_finalized [of zip_html_world zip_url]
    by (auto simp: prepare_final_result_def Let_def)
  have "map_option r_is_direct_download (final_result (snd (resolve zip_html_world zip_url)))
          = Some True"
    unfolding snd_resolve
    by (simp add: node_defs world_defs string_defs zip_html_world_def zip_url_def)
  with r have rd: "r_is_direct_download r" by simp
  obtain ev sr where sr: "streamlit_main zip_html_world zip_url = Some (ev, sr)"
    and sd: "s_is_direct_download sr"
    by (simp add: script_defs world_defs string_defs zip_html_world_def zip_url_def)
  from direct_download_recommends_request_url [of zip_html_world zip_url r ev sr] r rd sr sd
  have "r_recommended_link r = Some zip_url \<and> s_recommended_link sr = Some zip_url"
    by blast
  with r rd sr sd show ?thesis by simp
qed

subsection \<open>C6: the recommendation when the page is no direct download\<close>

text \<open>
  C6: in every finalized result with \<open>is_direct_download\<close> false, \<open>recommended_link\<close>
  is the first element of \<open>download_links\<close> when that list is not empty, and absent
  when it is empty.
\<close>

theorem recommended_link_is_first_download_link:
  assumes "final_result (snd (resolve w u)) = Some r" and "\<not> r_is_direct_download r"
  shows "r_recommended_link r =
           (case r_download_links r of [] \<Rightarrow> None | first # _ \<Rightarrow> Some first)"
proof -
  obtain s where "snd (resolve w u) = prepare_final_result s"
    using resolve_finalized by blast
  with assms show ?thesis
    using prepare_final_result_not_direct [of s r] by simp
qed

theorem recommended_link_is_first_download_link_witness:
  "map_option r_is_direct_download (final_result (snd (resolve links_world page_url)))
     = Some False
   \<and> map_option r_download_links (final_result (snd (resolve links_world page_url)))
     = Some [''https://example.com/files/doc.pdf'']
   \<and> map_option r_recommended_link (final_result (snd (resolve links_world page_url)))
     = Some (Some ''https://example.com/files/doc.pdf'')"
proof -
  obtain r where r: "final_result (snd (resolve links_world page_url)) = Some r"
    using resolve_finalized [of links_world page_url]
    by (auto simp: prepare_final_result_def Let_def)
  have "map_option r_is_direct_download (final_result (snd (resolve links_world page_url)))
          = Some False
        \<and> map_option r_download_links (final_result (snd (resolve links_world page_url)))
          = Some [''https://example.com/files/doc.pdf'']"
    unfolding snd_resolve
    by (simp add: node_defs world_defs string_defs links_world_def)
  with r have nd: "\<not> r_is_direct_download r"
    and l: "r_download_links r = [''https://example.com/files/doc.pdf'']"
    by simp_all
  from recommended_link_is_first_download_link [OF r nd] l
  have "r_recommended_link r = Some ''https://example.com/files/doc.pdf''"
    by simp
  with r nd l show ?thesis by simp
qed

subsection \<open>C7: an invalid URL\<close>

text \<open>
  C7: when the parse of the input has no scheme or no host, the result has
  \<open>success = false\<close> and the error "Invalid URL format", the run makes no network call
  (no HTTP request and no browser launch), and the router does not choose the browser
  pass. The script gives the same result for such an input.
\<close>

theorem invalid_url_rejected_without_io:
  assumes "urlparse w u = Inr p" and "scheme p = [] \<or> netloc p = []"
  shows "fst (resolve w u) = []
         \<and> needs_browser_router (snd (analyze_url w (initial_state u)))
             = ''prepare_final_result''
         \<and> map_option r_success (final_result (snd (resolve w u))) = Some False
         \<and> map_option r_error (final_result (snd (resolve w u)))
             = Some (Some ''Invalid URL format'')
         \<and> (u \<noteq> [] \<longrightarrow>
              map_option fst (streamlit_main w u) = Some []
              \<and> map_option (s_success \<circ> snd) (streamlit_main w u) = Some False
              \<and> map_option (s_error \<circ> snd) (streamlit_main w u)
                  = Some (Some ''Invalid URL format''))"
proof -
  note a = analyze_url_invalid [OF assms]
  have agent: "fst (resolve w u) = []
         \<and> needs_browser_router (snd (analyze_url w (initial_state u)))
             = ''prepare_final_result''
         \<and> map_option r_success (final_result (snd (resolve w u))) = Some False
         \<and> map_option r_error (final_result (snd (resolve w u)))
             = Some (Some ''Invalid URL format'')"
    unfolding fst_resolve snd_resolve a
    by (simp add: needs_browser_router_def initial_state_def prepare_final_result_def)
  have script: "st_analyze_url w u =
           ([], \<lparr>s_success = False, s_url = None, s_error = Some ''Invalid URL format'',
                 s_is_direct_download = False, s_download_links = [],
                 s_recommended_link = None, s_title = None, s_content_type = None,
                 s_needs_browser = False, s_filename = None\<rparr>)"
    using assms by (auto simp: st_analyze_url_def)
  from agent show ?thesis
    by (simp add: streamlit_main_def script)
qed

theorem invalid_url_rejected_without_io_witness:
  "urlparse invalid_world bare_url
     = Inr \<lparr>scheme = [], netloc = [], path = ''example.com/file''\<rparr>
   \<and> fst (resolve invalid_world bare_url) = []
   \<and> map_option r_error (final_result (snd (resolve invalid_world bare_url)))
       = Some (Some ''Invalid URL format'')"
proof -
  have p: "urlparse invalid_world bare_url
             = Inr \<lparr>scheme = [], netloc = [], path = ''example.com/file''\<rparr>"
    by (simp add: invalid_world_def single_page_world_def)
  have e: "scheme \<lparr>scheme = [], netloc = [], path = ''example.com/file''\<rparr> = []
           \<or> netloc \<lparr>scheme = [], netloc = [], path = ''example.com/file''\<rparr> = []"
    by simp
  from invalid_url_rejected_without_io [OF p e] p show ?thesis
    by simp
qed

subsection \<open>C8: which file name the direct download check returns\<close>

text \<open>
  C8, as stated: the first matching check wins for the file name; when the
  \<open>Content-Disposition\<close> header contains "attachment" and yields a file name, that name
  is returned even if the URL also ends with a configured extension.

  The extension loop runs after the header check and assigns \<open>filename\<close> again: for a
  URL ending in \<open>.zip\<close> and the header \<open>report_header\<close> the
  file name returned is the last path segment \<open>a.zip\<close>, not \<open>report.pdf\<close>.
\<close>

theorem header_filename_counterexample:
  "py_in ''attachment'' report_header
   \<and> filename_match report_header = Some ''report.pdf''
   \<and> is_direct_download_url ascii_lower ''http://example.com/a.zip'' report_header
       = (True, Some ''a.zip'')"
  by (simp add: is_direct_download_url_def string_defs report_header_def)

text \<open>
  C8, amended: in the direct download check the last matching check wins for the file
  name. When the \<open>Content-Disposition\<close> header contains "attachment" and yields a file
  name, the page is a direct download, and the file name returned is the one from the
  header only if the URL does not end with a configured extension; if it does, the last
  path segment of the URL replaces it.
\<close>

theorem header_filename_kept_unless_url_has_extension:
  assumes "py_in ''attachment'' content_disposition"
    and "filename_match content_disposition = Some name"
  shows "is_direct_download_url lc u content_disposition =
           (True,
            if list_ex (\<lambda>ext. endswith (lc u) ext) file_extensions
            then Some (last (split u CHR ''/''))
            else Some name)"
  using assms by (simp add: is_direct_download_url_def)

theorem header_filename_kept_unless_url_has_extension_witness:
  "py_in ''attachment'' report_header
   \<and> filename_match report_header = Some ''report.pdf''
   \<and> is_direct_download_url ascii_lower ''http://example.com/get?id=7'' report_header
       = (True, Some ''report.pdf'')"
proof -
  have a: "py_in ''attachment'' report_header"
    by (simp add: string_defs report_header_def)
  have f: "filename_match report_header = Some ''report.pdf''"
    by (simp add: string_defs report_header_def)
  have e: "\<not> list_ex (\<lambda>ext. endswith (ascii_lower ''http://example.com/get?id=7'') ext)
               file_extensions"
    by (simp add: string_defs)
  from header_filename_kept_unless_url_has_extension
         [OF a f, of ascii_lower "''http://example.com/get?id=7''"] e a f
  show ?thesis by simp
qed

subsection \<open>C9: normalizing twice\<close>

text \<open>
  C9: for every href \<open>x\<close> and every base URL whose scheme is \<open>http\<close> or \<open>https\<close>,
  normalizing the normalized href against the same base gives the normalized href again.
\<close>

theorem absolute_link_idempotent:
  assumes "scheme parsed_base = ''http'' \<or> scheme parsed_base = ''https''"
  shows "absolute_link parsed_base (absolute_link parsed_base x) = absolute_link parsed_base x"
proof -
  have "startswith (absolute_link parsed_base x) ''http''"
    using assms by (auto simp: absolute_link_def startswith_def Let_def)
  then show ?thesis
    by (simp add: absolute_link_def)
qed

theorem absolute_link_idempotent_witness:
  "scheme page_parsed = ''https''
   \<and> absolute_link page_parsed ''files/doc.pdf'' = ''https://example.com/files/doc.pdf''
   \<and> absolute_link page_parsed (absolute_link page_parsed ''files/doc.pdf'')
       = ''https://example.com/files/doc.pdf''"
proof -
  have s: "scheme page_parsed = ''http'' \<or> scheme page_parsed = ''https''"
    by (simp add: page_parsed_def)
  have n: "absolute_link page_parsed ''files/doc.pdf'' = ''https://example.com/files/doc.pdf''"
    by (simp add: absolute_link_def startswith_def page_parsed_def)
  from absolute_link_idempotent [OF s, of "''files/doc.pdf''"] n show ?thesis
    by (simp add: page_parsed_def)
qed

subsection \<open>C10: a static error stays when the browser pass finds links\<close>

text \<open>
  C10: if the static pass fails with an error and hands over to the browser pass, and
  the browser pass succeeds and finds links, the error of the static pass is not cleared:
  the finalized result has \<open>success = false\<close> and that error, and at the same time
  carries the links of the browser pass and recommends the first of them.
\<close>

theorem static_error_kept_with_browser_links:
  assumes "error (snd (analyze_url w (initial_state u))) = Some e"
    and "needs_browser (snd (analyze_url w (initial_state u)))"
    and "browser w u = Inr page"
    and "map fst (filter (browser_match (lower w)) (elements page)) = first # others"
    and "final_result (snd (resolve w u)) = Some r"
  shows "\<not> r_success r \<and> r_error r = Some e \<and> e \<noteq> []
         \<and> r_download_links r = first # others
         \<and> r_recommended_link r = Some first
         \<and> \<not> r_is_direct_download r"
proof -
  define s1 where "s1 = snd (analyze_url w (initial_state u))"
  have u: "url s1 = u"
    by (simp add: s1_def analyze_url_url initial_state_def)
  have e: "error s1 = Some e" and a: "analysis s1 = None" and ne: "e \<noteq> []"
    using assms(1) analyze_url_error_cases(1,3) [OF assms(1)] by (simp_all add: s1_def)
  have fin: "final_result (prepare_final_result (snd (analyze_with_browser w s1))) = Some r"
    using assms(2,5) by (simp add: snd_resolve s1_def)
  have "snd (analyze_with_browser w s1) =
          s1\<lparr>analysis := Some
                \<lparr>a_url = u, a_title = Some (page_title page), a_content_type = None,
                 a_is_html = True, a_is_direct_download = False, a_filename = None,
                 a_status_code = None, a_size = None\<rparr>,
              download_links := Some (first # others)\<rparr>"
    using assms(3,4) u a by (simp add: analyze_with_browser_def)
  with fin e ne show ?thesis
    by (auto simp: prepare_final_result_def Let_def)
qed

theorem static_error_kept_with_browser_links_witness:
  "error (snd (analyze_url static_fails_world (initial_state page_url)))
     = Some ''Error analyzing URL: Read timed out.''
   \<and> needs_browser (snd (analyze_url static_fails_world (initial_state page_url)))
   \<and> map_option r_success (final_result (snd (resolve static_fails_world page_url)))
       = Some False
   \<and> map_option r_error (final_result (snd (resolve static_fails_world page_url)))
       = Some (Some ''Error analyzing URL: Read timed out.'')
   \<and> map_option r_download_links (final_result (snd (resolve static_fails_world page_url)))
       = Some [''https://example.com/files/setup.exe'']
   \<and> map_option r_recommended_link (final_result (snd (resolve static_fails_world page_url)))
       = Some (Some ''https://example.com/files/setup.exe'')"
proof -
  have e: "error (snd (analyze_url static_fails_world (initial_state page_url)))
             = Some ''Error analyzing URL: Read timed out.''"
    and nb: "needs_browser (snd (analyze_url static_fails_world (initial_state page_url)))"
    by (simp_all add: node_defs world_defs static_fails_world_def)
  have b: "browser static_fails_world page_url
             = Inr \<lparr>page_title = ''Setup'',
                    elements = [(''https://example.com/files/setup.exe'', ''Download now'')]\<rparr>"
    by (simp add: world_defs static_fails_world_def)
  have l: "map fst (filter (browser_match (lower static_fails_world))
             (elements \<lparr>page_title = ''Setup'',
                elements = [(''https://example.com/files/setup.exe'', ''Download now'')]\<rparr>))
           = ''https://example.com/files/setup.exe'' # []"
    by (simp add: browser_match_def string_defs world_defs static_fails_world_def)
  obtain r where r: "final_result (snd (resolve static_fails_world page_url)) = Some r"
    using resolve_finalized [of static_fails_world page_url]
    by (auto simp: prepare_final_result_def Let_def)
  from static_error_kept_with_browser_links [OF e nb b l r] e nb r show ?thesis
    by simp
qed

end
